theory Spec2Isabelle
  imports Complex_Main
begin

section \<open>PiSSA linear layers (torchtune/modules/peft/pissa.py)\<close>

text \<open>
  A shallow embedding of \<^verbatim>\<open>PiSSALinear\<close> and \<^verbatim>\<open>QATPiSSALinear\<close>.

  Conventions of the embedding.
  \<^item> A tensor entry is a float32 value: a finite number, an infinity or NaN. An
    arithmetic operation on finite numbers gives the exact result, or an infinity
    when the exact result is beyond the largest float32; on infinities and NaN it
    follows IEEE 754. The rounding of a finite result to the nearest float32,
    underflow and the sign of zero are not represented.
  \<^item> A two-dimensional tensor carries its shape next to its rows, so that a tensor
    with no rows still has a column count.
  \<^item> The input of \<^verbatim>\<open>forward\<close> is a one-dimensional tensor of shape
    \<^verbatim>\<open>[in_dim]\<close>, as in the class's usage example
    \<^verbatim>\<open>qat_lora_linear(torch.randn(512))\<close>; leading batch dimensions repeat the
    same map row by row.
  \<^item> Every Python exception is a value of type \<open>error\<close>; a function that can raise
    returns \<open>error + 'a\<close>, with \<open>Inl\<close> for the exception.
  \<^item> What the file takes from PyTorch and torchao (random initialisation, the NF4
    codec, dropout masks, the SVD routines, the fake quantizers, the storage dtype)
    is a field of the record \<open>torch_env\<close>, a parameter of every operation.
\<close>

subsection \<open>Python values and exceptions\<close>

datatype error =
    ValueError string
  | RuntimeError string
  | TypeError string
  | ZeroDivisionError string

text \<open>
  The exceptions that the file raises itself, by the line of their
  \<^verbatim>\<open>raise\<close> (the formatted arguments of a message are left out).
\<close>

definition quantization_kwargs_error :: error where
  "quantization_kwargs_error =
     ValueError ''quantize_base is False, but received the following quantization arguments''"

definition meta_device_error :: error where
  "meta_device_error =
     RuntimeError ''Cannot initialize PiSSA if base or LoRA parameters are still on meta device.''"

definition fsvd_niter_error :: error where
  "fsvd_niter_error =
     RuntimeError ''Fast SVD niter is a non-negative integer. It is recommended to set it equal to the rank.''"

definition torchao_error :: error where
  "torchao_error = ValueError ''QATPiSSALinear is only compatible with torchao 0.7+''"

definition group_size_error :: error where
  "group_size_error = ValueError ''in_dim must be divisible by group_size''"

text \<open>The values a keyword argument can carry, with Python's truth value.\<close>

datatype py_value =
    PyNone
  | PyBool bool
  | PyInt int
  | PyFloat real
  | PyStr string

fun truthy :: "py_value \<Rightarrow> bool" where
  "truthy PyNone = False"
| "truthy (PyBool b) = b"
| "truthy (PyInt i) = (i \<noteq> 0)"
| "truthy (PyFloat r) = (r \<noteq> 0)"
| "truthy (PyStr s) = (s \<noteq> [])"

type_synonym kwargs = "(string \<times> py_value) list"

text \<open>Sequencing of computations that can raise: the first exception wins.\<close>

definition err_bind :: "error + 'a \<Rightarrow> ('a \<Rightarrow> error + 'b) \<Rightarrow> error + 'b" where
  "err_bind m f = (case m of Inl e \<Rightarrow> Inl e | Inr v \<Rightarrow> f v)"

subsection \<open>Float32 values\<close>

datatype f32 = Finite real | PosInf | NegInf | NaN

text \<open>The largest finite float32, \<^verbatim>\<open>(2 - 2**-23) * 2**127\<close>.\<close>

definition max_float :: real where
  "max_float = 340282346638528859811704183484516925440"

text \<open>The float32 of an exact result: an infinity beyond the largest float32.\<close>

definition of_real_f32 :: "real \<Rightarrow> f32" where
  "of_real_f32 r =
     (if max_float < r then PosInf else if r < - max_float then NegInf else Finite r)"

definition is_finite :: "f32 \<Rightarrow> bool" where
  "is_finite v = (case v of Finite r \<Rightarrow> True | _ \<Rightarrow> False)"

text \<open>A value that a float32 tensor can hold: its finite numbers are within range.\<close>

definition representable :: "f32 \<Rightarrow> bool" where
  "representable v = (case v of Finite r \<Rightarrow> \<bar>r\<bar> \<le> max_float | _ \<Rightarrow> True)"

text \<open>
  The infinity of a sign, and NaN for the sign 0 (as in \<open>inf * 0\<close> and \<open>0 / 0\<close>); the
  sign of a value.
\<close>

definition inf_of_sign :: "real \<Rightarrow> f32" where
  "inf_of_sign s = (if 0 < s then PosInf else if s < 0 then NegInf else NaN)"

definition sign_of :: "f32 \<Rightarrow> real" where
  "sign_of v = (case v of Finite r \<Rightarrow> sgn r | PosInf \<Rightarrow> 1 | NegInf \<Rightarrow> - 1 | NaN \<Rightarrow> 0)"

text \<open>Addition: NaN is absorbing, opposite infinities give NaN, an infinity wins.\<close>

definition fadd :: "f32 \<Rightarrow> f32 \<Rightarrow> f32" where
  "fadd x y =
     (case (x, y) of
        (NaN, _) \<Rightarrow> NaN
      | (_, NaN) \<Rightarrow> NaN
      | (Finite a, Finite b) \<Rightarrow> of_real_f32 (a + b)
      | (PosInf, NegInf) \<Rightarrow> NaN
      | (NegInf, PosInf) \<Rightarrow> NaN
      | (Finite a, z) \<Rightarrow> z
      | (z, _) \<Rightarrow> z)"

definition fneg :: "f32 \<Rightarrow> f32" where
  "fneg x =
     (case x of Finite a \<Rightarrow> Finite (- a) | PosInf \<Rightarrow> NegInf | NegInf \<Rightarrow> PosInf | NaN \<Rightarrow> NaN)"

definition fsub :: "f32 \<Rightarrow> f32 \<Rightarrow> f32" where
  "fsub x y = fadd x (fneg y)"

text \<open>
  Multiplication: NaN is absorbing, an infinity times zero is NaN, otherwise an
  infinite factor gives the infinity of the product of the signs.
\<close>

definition fmul :: "f32 \<Rightarrow> f32 \<Rightarrow> f32" where
  "fmul x y =
     (case (x, y) of
        (NaN, _) \<Rightarrow> NaN
      | (_, NaN) \<Rightarrow> NaN
      | (Finite a, Finite b) \<Rightarrow> of_real_f32 (a * b)
      | _ \<Rightarrow> inf_of_sign (sign_of x * sign_of y))"

text \<open>
  Division: NaN is absorbing, \<open>inf / inf\<close> and \<open>0 / 0\<close> are NaN, a finite number over an
  infinity is zero, a nonzero number over zero is the infinity of its sign, and an
  infinity over a finite number keeps its sign for a divisor that is not negative.
\<close>

definition fdiv :: "f32 \<Rightarrow> f32 \<Rightarrow> f32" where
  "fdiv x y =
     (case (x, y) of
        (NaN, _) \<Rightarrow> NaN
      | (_, NaN) \<Rightarrow> NaN
      | (Finite a, Finite b) \<Rightarrow> (if b = 0 then inf_of_sign (sgn a) else of_real_f32 (a / b))
      | (Finite a, _) \<Rightarrow> Finite 0
      | (_, Finite b) \<Rightarrow> inf_of_sign (sign_of x * (if b < 0 then - 1 else 1))
      | _ \<Rightarrow> NaN)"

subsection \<open>Tensors\<close>

type_synonym vec = "f32 list"

text \<open>The one-dimensional tensor of finite numbers.\<close>

definition of_reals :: "real list \<Rightarrow> vec" where
  "of_reals rs = map Finite rs"

text \<open>
  A two-dimensional tensor of shape \<^verbatim>\<open>[nrows, ncols]\<close>, by rows. A value of this type
  stands for a tensor when \<open>elems\<close> has \<open>nrows\<close> rows of \<open>ncols\<close> entries each; every
  matrix that the operations below build is of this form.
\<close>

record mat =
  nrows :: nat
  ncols :: nat
  elems :: "vec list"

text \<open>
  A parameter tensor: \<open>is_meta\<close> is \<^verbatim>\<open>tensor.is_meta\<close> (equivalently
  \<^verbatim>\<open>tensor.device == torch.device("meta")\<close>), \<open>storage\<close> its contents.
\<close>

record 'a Tensor =
  is_meta :: bool
  storage :: 'a

definition mk_mat :: "nat \<Rightarrow> nat \<Rightarrow> (nat \<Rightarrow> nat \<Rightarrow> f32) \<Rightarrow> mat" where
  "mk_mat r c f = \<lparr>nrows = r, ncols = c, elems = map (\<lambda>i. map (\<lambda>j. f i j) [0..<c]) [0..<r]\<rparr>"

text \<open>The matrix of the finite numbers \<open>f i j\<close>.\<close>

definition real_mat :: "nat \<Rightarrow> nat \<Rightarrow> (nat \<Rightarrow> nat \<Rightarrow> real) \<Rightarrow> mat" where
  "real_mat r c f = mk_mat r c (\<lambda>i j. Finite (f i j))"

definition entry :: "mat \<Rightarrow> nat \<Rightarrow> nat \<Rightarrow> f32" where
  "entry m i j = elems m ! i ! j"

text \<open>A sum of products, accumulated from the left, starting from zero.\<close>

definition fsum :: "f32 list \<Rightarrow> f32" where
  "fsum vs = foldl fadd (Finite 0) vs"

definition dot :: "vec \<Rightarrow> vec \<Rightarrow> f32" where
  "dot xs ys = fsum (map2 fmul xs ys)"

text \<open>
  An elementwise binary operation on one-dimensional tensors with PyTorch's
  broadcasting: equal sizes, or one of the two of size 1.
\<close>

definition broadcast1 :: "(f32 \<Rightarrow> f32 \<Rightarrow> f32) \<Rightarrow> vec \<Rightarrow> vec \<Rightarrow> error + vec" where
  "broadcast1 f xs ys =
     (if length xs = length ys then Inr (map2 f xs ys)
      else if length ys = 1 then Inr (map (\<lambda>x. f x (hd ys)) xs)
      else if length xs = 1 then Inr (map (\<lambda>y. f (hd xs) y) ys)
      else Inl (RuntimeError ''The size of tensor a must match the size of tensor b''))"

text \<open>The size of a broadcast dimension, when the two sizes are compatible.\<close>

definition broadcast_dim :: "nat \<Rightarrow> nat \<Rightarrow> nat option" where
  "broadcast_dim a b =
     (if a = b then Some a else if a = 1 then Some b else if b = 1 then Some a else None)"

text \<open>Reading a matrix as if expanded: a dimension of size 1 repeats its only index.\<close>

definition expanded :: "mat \<Rightarrow> nat \<Rightarrow> nat \<Rightarrow> f32" where
  "expanded m i j = entry m (if nrows m = 1 then 0 else i) (if ncols m = 1 then 0 else j)"

definition broadcast2 :: "(f32 \<Rightarrow> f32 \<Rightarrow> f32) \<Rightarrow> mat \<Rightarrow> mat \<Rightarrow> error + mat" where
  "broadcast2 f a b =
     (case (broadcast_dim (nrows a) (nrows b), broadcast_dim (ncols a) (ncols b)) of
        (Some r, Some c) \<Rightarrow> Inr (mk_mat r c (\<lambda>i j. f (expanded a i j) (expanded b i j)))
      | _ \<Rightarrow> Inl (RuntimeError ''The size of tensor a must match the size of tensor b''))"

text \<open>\<^verbatim>\<open>a @ b\<close> on two-dimensional tensors.\<close>

definition matmul :: "mat \<Rightarrow> mat \<Rightarrow> error + mat" where
  "matmul a b =
     (if ncols a \<noteq> nrows b
      then Inl (RuntimeError ''mat1 and mat2 shapes cannot be multiplied'')
      else Inr (mk_mat (nrows a) (ncols b)
                  (\<lambda>i j. fsum (map (\<lambda>k. fmul (entry a i k) (entry b k j)) [0..<ncols a]))))"

text \<open>\<^verbatim>\<open>torch.diag(v)\<close> of a one-dimensional tensor, and \<^verbatim>\<open>m.t()\<close>.\<close>

definition diag :: "vec \<Rightarrow> mat" where
  "diag v = mk_mat (length v) (length v) (\<lambda>i j. if i = j then v ! i else Finite 0)"

definition transpose_mat :: "mat \<Rightarrow> mat" where
  "transpose_mat m = mk_mat (ncols m) (nrows m) (\<lambda>i j. entry m j i)"

text \<open>
  Python's slice \<^verbatim>\<open>xs[:n]\<close>: the first \<open>n\<close> items for \<open>n \<ge> 0\<close>, all but the last
  \<open>-n\<close> items for \<open>n < 0\<close>.
\<close>

definition slice_upto :: "int \<Rightarrow> 'a list \<Rightarrow> 'a list" where
  "slice_upto n xs = (if 0 \<le> n then take (nat n) xs else take (length xs - nat (- n)) xs)"

text \<open>\<^verbatim>\<open>m[:, :n]\<close> and \<^verbatim>\<open>m[:n]\<close> on a two-dimensional tensor.\<close>

definition slice_cols :: "int \<Rightarrow> mat \<Rightarrow> mat" where
  "slice_cols n m =
     \<lparr>nrows = nrows m, ncols = length (slice_upto n [0..<ncols m]),
      elems = map (slice_upto n) (elems m)\<rparr>"

definition slice_rows :: "int \<Rightarrow> mat \<Rightarrow> mat" where
  "slice_rows n m =
     \<lparr>nrows = length (slice_upto n [0..<nrows m]), ncols = ncols m,
      elems = slice_upto n (elems m)\<rparr>"

text \<open>
  \<^verbatim>\<open>dst.copy_(src)\<close>: the source is broadcast to the destination's shape, which
  does not change; the call raises when the source cannot be broadcast to it.
\<close>

definition copy1 :: "vec \<Rightarrow> vec \<Rightarrow> error + vec" where
  "copy1 dst src =
     (if length src = length dst then Inr src
      else if length src = 1 then Inr (replicate (length dst) (hd src))
      else Inl (RuntimeError ''The size of tensor a must match the size of tensor b''))"

definition copy2 :: "mat \<Rightarrow> mat \<Rightarrow> error + mat" where
  "copy2 dst src =
     (if (nrows src = nrows dst \<or> nrows src = 1) \<and> (ncols src = ncols dst \<or> ncols src = 1)
      then Inr (mk_mat (nrows dst) (ncols dst) (expanded src))
      else Inl (RuntimeError ''The size of tensor a must match the size of tensor b''))"

text \<open>
  \<^verbatim>\<open>F.linear(x, w, b)\<close> for a one-dimensional \<open>x\<close>: \<open>w\<close> has shape
  \<^verbatim>\<open>[out_features, in_features]\<close>, the size of \<open>x\<close> must be \<open>in_features\<close>, and
  the bias, when given, is added to the product.
\<close>

definition F_linear :: "vec \<Rightarrow> mat \<Rightarrow> vec option \<Rightarrow> error + vec" where
  "F_linear x w b =
     (if length x \<noteq> ncols w
      then Inl (RuntimeError ''mat1 and mat2 shapes cannot be multiplied'')
      else (case b of
              None \<Rightarrow> Inr (map (\<lambda>row. dot row x) (elems w))
            | Some bv \<Rightarrow> broadcast1 fadd (map (\<lambda>row. dot row x) (elems w)) bv))"

subsection \<open>What PyTorch and torchao provide\<close>

text \<open>
  \<^verbatim>\<open>FakeQuantizeConfig\<close> of torchao: the constructor of \<^verbatim>\<open>QATPiSSALinear\<close> reads
  its \<^verbatim>\<open>group_size\<close> only; the other settings are passed on to the fake quantizer.
\<close>

record FakeQuantizeConfig =
  group_size :: "int option"
  is_symmetric :: bool
  bits :: nat

text \<open>
  The module held in \<^verbatim>\<open>self.dropout\<close> is \<^verbatim>\<open>nn.Dropout(p)\<close> or \<^verbatim>\<open>nn.Identity()\<close>;
  the modules held in the two fake-quantizer fields are \<^verbatim>\<open>FakeQuantizer(config)\<close> or
  \<^verbatim>\<open>nn.Identity()\<close>.
\<close>

datatype dropout_module = Dropout real | Identity

datatype quantizer_module = FakeQuantizer FakeQuantizeConfig | QIdentity

text \<open>
  The environment of a call.
  \<^item> \<open>device_meta\<close>: the default device is the meta device, so that freshly created
    tensors are meta tensors.
  \<^item> \<open>linear_weight_init\<close>, \<open>linear_bias_init\<close>: the entries that
    \<^verbatim>\<open>nn.Linear\<close> draws for the base weight and bias; \<open>kaiming_u\<close>, \<open>kaiming_v\<close>:
    the entries that \<^verbatim>\<open>nn.init.kaiming_uniform_\<close> draws for \<^verbatim>\<open>pissa_u.weight\<close>
    and \<^verbatim>\<open>pissa_v.weight\<close>, by row and column. A drawn entry is a finite number.
  \<^item> \<open>to_nf4\<close>, \<open>linear_nf4\<close>: the NF4 codec. A quantized weight is represented by
    the matrix of the values it stands for.
  \<^item> \<open>dropout_mask p i\<close>: the finite factor that \<^verbatim>\<open>nn.Dropout(p)\<close> applies to
    entry \<open>i\<close> of its input in this call (\<open>0\<close> or \<open>1 / (1 - p)\<close> in training, \<open>1\<close> in
    evaluation).
  \<^item> \<open>svd\<close>: \<^verbatim>\<open>torch.linalg.svd(w, full_matrices=False)\<close>;
    \<open>svd_lowrank w q niter\<close>: \<^verbatim>\<open>torch.svd_lowrank(w, q, niter=niter)\<close>.
  \<^item> \<open>to_dtype\<close>: the conversion of one float32 value to the storage dtype of
    \<^verbatim>\<open>self.weight\<close> (the identity for a float32 weight).
  \<^item> \<open>torchao_qat\<close>: the import of torchao's QAT interface succeeds.
  \<^item> \<open>fake_quantize_act\<close>, \<open>fake_quantize_weight\<close>: what a \<^verbatim>\<open>FakeQuantizer\<close>
    returns for an activation and for a weight.
\<close>

record torch_env =
  device_meta :: bool
  linear_weight_init :: "nat \<Rightarrow> nat \<Rightarrow> real"
  linear_bias_init :: "nat \<Rightarrow> real"
  kaiming_u :: "nat \<Rightarrow> nat \<Rightarrow> real"
  kaiming_v :: "nat \<Rightarrow> nat \<Rightarrow> real"
  to_nf4 :: "kwargs \<Rightarrow> mat \<Rightarrow> error + mat"
  linear_nf4 :: "vec \<Rightarrow> mat \<Rightarrow> error + vec"
  dropout_mask :: "real \<Rightarrow> nat \<Rightarrow> real"
  svd :: "mat \<Rightarrow> error + (mat \<times> vec \<times> mat)"
  svd_lowrank :: "mat \<Rightarrow> int \<Rightarrow> int \<Rightarrow> error + (mat \<times> vec \<times> mat)"
  to_dtype :: "f32 \<Rightarrow> f32"
  torchao_qat :: bool
  fake_quantize_act :: "FakeQuantizeConfig \<Rightarrow> vec \<Rightarrow> vec"
  fake_quantize_weight :: "FakeQuantizeConfig \<Rightarrow> mat \<Rightarrow> mat"

text \<open>
  The weight that \<^verbatim>\<open>nn.Linear(in_features, out_features, bias=False)\<close> creates, of
  shape \<^verbatim>\<open>[out_features, in_features]\<close>. PyTorch refuses to allocate a tensor with
  a negative dimension; a dimension of size 0 is allowed (the initialisation of an
  empty tensor is a no-op).
\<close>

definition nn_Linear :: "bool \<Rightarrow> (nat \<Rightarrow> nat \<Rightarrow> real) \<Rightarrow> int \<Rightarrow> int \<Rightarrow> error + mat Tensor" where
  "nn_Linear meta init in_features out_features =
     (if in_features < 0 \<or> out_features < 0
      then Inl (RuntimeError ''Trying to create tensor with negative dimension'')
      else Inr \<lparr>is_meta = meta,
                storage = real_mat (nat out_features) (nat in_features) init\<rparr>)"

text \<open>
  Line 90: \<^verbatim>\<open>nn.Dropout(p=dropout) if dropout > 0.0 else nn.Identity()\<close>.
  \<^verbatim>\<open>nn.Dropout\<close> raises for a probability outside \<open>[0, 1]\<close>, of which only
  \<open>p > 1\<close> can reach it here.
\<close>

definition nn_Dropout :: "real \<Rightarrow> error + dropout_module" where
  "nn_Dropout p =
     (if p < 0 \<or> 1 < p
      then Inl (ValueError ''dropout probability has to be between 0 and 1'')
      else Inr (Dropout p))"

definition make_dropout :: "real \<Rightarrow> error + dropout_module" where
  "make_dropout dropout = (if 0 < dropout then nn_Dropout dropout else Inr Identity)"

text \<open>Calling the dropout module, and a fake-quantizer module, on a tensor.\<close>

definition call_dropout :: "torch_env \<Rightarrow> dropout_module \<Rightarrow> vec \<Rightarrow> vec" where
  "call_dropout env m x =
     (case m of
        Identity \<Rightarrow> x
      | Dropout p \<Rightarrow> map (\<lambda>i. fmul (x ! i) (Finite (dropout_mask env p i))) [0..<length x])"

definition call_quantizer_act :: "torch_env \<Rightarrow> quantizer_module \<Rightarrow> vec \<Rightarrow> vec" where
  "call_quantizer_act env m x =
     (case m of QIdentity \<Rightarrow> x | FakeQuantizer c \<Rightarrow> fake_quantize_act env c x)"

definition call_quantizer_weight :: "torch_env \<Rightarrow> quantizer_module \<Rightarrow> mat \<Rightarrow> mat" where
  "call_quantizer_weight env m w =
     (case m of QIdentity \<Rightarrow> w | FakeQuantizer c \<Rightarrow> fake_quantize_weight env c w)"

subsection \<open>PiSSALinear\<close>

text \<open>
  The state of a \<^verbatim>\<open>PiSSALinear\<close>. \<open>pissa_u_weight\<close> and \<open>pissa_v_weight\<close> are
  \<^verbatim>\<open>self.pissa_u.weight\<close> and \<^verbatim>\<open>self.pissa_v.weight\<close> (both linear maps have no
  bias); \<open>quantize_base\<close> is \<^verbatim>\<open>self._quantize_base\<close>.
\<close>

record PiSSALinear =
  in_dim :: int
  out_dim :: int
  rank :: int
  alpha :: real
  use_bias :: bool
  quantize_base :: bool
  disabled :: bool
  weight :: "mat Tensor"
  bias :: "vec Tensor option"
  dropout :: dropout_module
  pissa_u_weight :: "mat Tensor"
  pissa_s :: "vec Tensor"
  pissa_v_weight :: "mat Tensor"
  merged :: bool

text \<open>
  \<^verbatim>\<open>PiSSALinear.__init__\<close> (lines 49-95), in the order of the source: the guard on
  the quantization keyword arguments, the base linear layer, its quantization, the
  dropout module, \<^verbatim>\<open>pissa_u\<close>, \<^verbatim>\<open>pissa_s\<close>, \<^verbatim>\<open>pissa_v\<close>, and
  \<^verbatim>\<open>initialize_parameters\<close>, which leaves \<^verbatim>\<open>pissa_u.weight\<close> and
  \<^verbatim>\<open>pissa_v.weight\<close> Kaiming-uniform and \<^verbatim>\<open>pissa_s\<close> zero.
\<close>

definition PiSSALinear_init ::
  "torch_env \<Rightarrow> int \<Rightarrow> int \<Rightarrow> int \<Rightarrow> real \<Rightarrow> real \<Rightarrow> bool \<Rightarrow> bool \<Rightarrow> kwargs \<Rightarrow> error + PiSSALinear" where
  "PiSSALinear_init env in_d out_d r a p ub qb quantization_kwargs =
     (if \<not> qb \<and> list_ex truthy (map snd quantization_kwargs)
      then Inl quantization_kwargs_error
      else
        err_bind (nn_Linear (device_meta env) (linear_weight_init env) in_d out_d) (\<lambda>linear_weight.
        err_bind (if \<not> qb then Inr linear_weight
                  else err_bind (to_nf4 env quantization_kwargs (storage linear_weight))
                         (\<lambda>q. Inr (linear_weight\<lparr>storage := q\<rparr>))) (\<lambda>w.
        err_bind (make_dropout p) (\<lambda>d.
        err_bind (nn_Linear (device_meta env) (kaiming_u env) in_d r) (\<lambda>u.
        err_bind (nn_Linear (device_meta env) (kaiming_v env) r out_d) (\<lambda>v.
          Inr \<lparr>in_dim = in_d, out_dim = out_d, rank = r, alpha = a, use_bias = ub,
               quantize_base = qb, disabled = False, weight = w,
               bias = (if ub
                       then Some \<lparr>is_meta = device_meta env,
                                  storage = map (\<lambda>k. Finite (linear_bias_init env k))
                                              [0..<nat out_d]\<rparr>
                       else None),
               dropout = d, pissa_u_weight = u,
               pissa_s = \<lparr>is_meta = device_meta env, storage = replicate (nat r) (Finite 0)\<rparr>,
               pissa_v_weight = v, merged = False\<rparr>))))))"

text \<open>
  The first block of \<^verbatim>\<open>PiSSALinear.forward\<close> (lines 182-187): the base transform.
  With a quantized base the bias is added after \<^verbatim>\<open>linear_nf4\<close>; adding
  \<^verbatim>\<open>None\<close> is a \<^verbatim>\<open>TypeError\<close>.
\<close>

definition base_out :: "torch_env \<Rightarrow> 'a PiSSALinear_scheme \<Rightarrow> vec \<Rightarrow> error + vec" where
  "base_out env l x =
     (if quantize_base l
      then err_bind (linear_nf4 env x (storage (weight l))) (\<lambda>out.
             if use_bias l
             then (case bias l of
                     None \<Rightarrow> Inl (TypeError ''unsupported operand type(s) for +'')
                   | Some b \<Rightarrow> broadcast1 fadd out (storage b))
             else Inr out)
      else F_linear x (storage (weight l)) (map_option storage (bias l)))"

text \<open>
  The adapter branch, the same four lines in \<^verbatim>\<open>PiSSALinear.forward\<close> (190-193) and
  in \<^verbatim>\<open>QATPiSSALinear.forward\<close> (308-311). \<^verbatim>\<open>self.alpha / self.rank\<close> is Python's
  division and raises for a zero rank; it is evaluated after the product with
  \<^verbatim>\<open>pissa_s\<close>, and the tensor is multiplied by its float32.
\<close>

definition adapter_out :: "torch_env \<Rightarrow> 'a PiSSALinear_scheme \<Rightarrow> vec \<Rightarrow> vec \<Rightarrow> error + vec" where
  "adapter_out env l x out =
     err_bind (F_linear (call_dropout env (dropout l) x) (storage (pissa_u_weight l)) None) (\<lambda>lora_u.
     err_bind (broadcast1 fmul lora_u (storage (pissa_s l))) (\<lambda>lora_s.
     err_bind (if rank l = 0 then Inl (ZeroDivisionError ''division by zero'')
               else Inr (map (\<lambda>t. fmul t (of_real_f32 (alpha l / real_of_int (rank l))))
                           lora_s)) (\<lambda>lora_scaled.
     err_bind (F_linear lora_scaled (storage (pissa_v_weight l)) None) (\<lambda>lora_out.
       broadcast1 fadd out lora_out))))"

definition PiSSALinear_forward :: "torch_env \<Rightarrow> PiSSALinear \<Rightarrow> vec \<Rightarrow> error + vec" where
  "PiSSALinear_forward env l x =
     err_bind (base_out env l x) (\<lambda>out.
       if disabled l then Inr out else adapter_out env l x out)"

text \<open>
  \<^verbatim>\<open>initialize_pissa\<close>, lines 137-153: the decomposition of the upcast weight.
  \<open>fsvd_niter\<close> is \<^verbatim>\<open>None\<close> (the exact SVD), or must be an \<^verbatim>\<open>int\<close> that is not
  negative (Python's \<^verbatim>\<open>bool\<close> is an \<^verbatim>\<open>int\<close>). The upcast to float32 does not
  change a value. \<^verbatim>\<open>Sr /= self.alpha / self.rank\<close> divides in place, so every later
  use of \<open>Sr\<close> sees the divided values; the Python division raises for a zero rank,
  and the tensor is divided by the float32 of its result.
\<close>

definition niter_of :: "py_value \<Rightarrow> int option" where
  "niter_of v =
     (case v of
        PyInt n \<Rightarrow> (if 0 \<le> n then Some n else None)
      | PyBool b \<Rightarrow> Some (if b then 1 else 0)
      | _ \<Rightarrow> None)"

definition scale_singular :: "'a PiSSALinear_scheme \<Rightarrow> vec \<Rightarrow> error + vec" where
  "scale_singular l Sr =
     (if rank l = 0 then Inl (ZeroDivisionError ''division by zero'')
      else Inr (map (\<lambda>s. fdiv s (of_real_f32 (alpha l / real_of_int (rank l)))) Sr))"

definition decompose ::
  "torch_env \<Rightarrow> py_value \<Rightarrow> 'a PiSSALinear_scheme \<Rightarrow> mat \<Rightarrow> error + (mat \<times> vec \<times> mat)" where
  "decompose env fsvd_niter l base_weight =
     (if fsvd_niter \<noteq> PyNone
      then (case niter_of fsvd_niter of
              Some n \<Rightarrow>
                err_bind (svd_lowrank env base_weight (rank l) n) (\<lambda>(Vr, S, Ur).
                err_bind (scale_singular l S) (\<lambda>Sr.
                  Inr (Vr, Sr, transpose_mat Ur)))
            | None \<Rightarrow>
                Inl fsvd_niter_error)
      else
        err_bind (svd env base_weight) (\<lambda>(V, S, Uh).
        err_bind (scale_singular l (slice_upto (rank l) S)) (\<lambda>Sr.
          Inr (slice_cols (rank l) V, Sr, slice_rows (rank l) Uh))))"

definition map_mat :: "(f32 \<Rightarrow> f32) \<Rightarrow> mat \<Rightarrow> mat" where
  "map_mat f m = m\<lparr>elems := map (map f) (elems m)\<rparr>"

text \<open>
  Lines 155-159: the four writes, in the order of the source. An exception leaves
  the writes made before it in place, so the result is the exception (if any)
  together with the state of the layer when the call ends.
\<close>

definition write_back ::
  "torch_env \<Rightarrow> 'a PiSSALinear_scheme \<Rightarrow> mat \<Rightarrow> mat \<Rightarrow> vec \<Rightarrow> mat
     \<Rightarrow> error option \<times> 'a PiSSALinear_scheme" where
  "write_back env l base_weight Vr Sr Uhr =
     (case copy2 (storage (pissa_u_weight l)) Uhr of
        Inl e \<Rightarrow> (Some e, l)
      | Inr u \<Rightarrow>
     (let l1 = l\<lparr>pissa_u_weight := (pissa_u_weight l)\<lparr>storage := u\<rparr>\<rparr> in
      case copy1 (storage (pissa_s l1)) Sr of
        Inl e \<Rightarrow> (Some e, l1)
      | Inr s \<Rightarrow>
     (let l2 = l1\<lparr>pissa_s := (pissa_s l1)\<lparr>storage := s\<rparr>\<rparr> in
      case copy2 (storage (pissa_v_weight l2)) Vr of
        Inl e \<Rightarrow> (Some e, l2)
      | Inr v \<Rightarrow>
     (let l3 = l2\<lparr>pissa_v_weight := (pissa_v_weight l2)\<lparr>storage := v\<rparr>\<rparr> in
      case err_bind (matmul Vr (diag Sr)) (\<lambda>vs.
           err_bind (matmul vs Uhr) (\<lambda>low_rank.
           err_bind (broadcast2 fsub base_weight low_rank) (\<lambda>residual_weight.
             copy2 (storage (weight l3)) (map_mat (to_dtype env) residual_weight)))) of
        Inl e \<Rightarrow> (Some e, l3)
      | Inr w \<Rightarrow> (None, l3\<lparr>weight := (weight l3)\<lparr>storage := w\<rparr>\<rparr>)))))"

text \<open>\<^verbatim>\<open>PiSSALinear.initialize_pissa\<close> (lines 115-159).\<close>

definition initialize_pissa ::
  "torch_env \<Rightarrow> py_value \<Rightarrow> 'a PiSSALinear_scheme \<Rightarrow> error option \<times> 'a PiSSALinear_scheme" where
  "initialize_pissa env fsvd_niter l =
     (if is_meta (weight l) \<or> is_meta (pissa_u_weight l) \<or> is_meta (pissa_s l)
         \<or> is_meta (pissa_v_weight l)
      then (Some meta_device_error, l)
      else (case decompose env fsvd_niter l (storage (weight l)) of
              Inl e \<Rightarrow> (Some e, l)
            | Inr (Vr, Sr, Uhr) \<Rightarrow> write_back env l (storage (weight l)) Vr Sr Uhr))"

subsection \<open>QATPiSSALinear\<close>

record QATPiSSALinear = PiSSALinear +
  activation_fake_quantizer :: quantizer_module
  weight_fake_quantizer :: quantizer_module

text \<open>
  The weight fake quantizer of lines 281-292. \<^verbatim>\<open>in_dim % group_size\<close> is Python's
  remainder, which has the sign of the divisor (as \<open>mod\<close> on \<open>int\<close>) and raises for a
  zero divisor.
\<close>

definition make_weight_quantizer :: "int \<Rightarrow> FakeQuantizeConfig option \<Rightarrow> error + quantizer_module" where
  "make_weight_quantizer in_d weight_qat_config =
     (case weight_qat_config of
        None \<Rightarrow> Inr QIdentity
      | Some c \<Rightarrow>
          (case group_size c of
             None \<Rightarrow> Inr (FakeQuantizer c)
           | Some g \<Rightarrow>
               if g = 0 then Inl (ZeroDivisionError ''integer modulo by zero'')
               else if in_d mod g \<noteq> 0
               then Inl group_size_error
               else Inr (FakeQuantizer c)))"

text \<open>
  \<^verbatim>\<open>QATPiSSALinear.__init__\<close> (lines 243-292): the constructor of the base class with
  \<^verbatim>\<open>use_bias=False, quantize_base=False\<close> and no keyword arguments, the import of
  torchao's QAT interface, then the two fake quantizers.
\<close>

definition QATPiSSALinear_init ::
  "torch_env \<Rightarrow> int \<Rightarrow> int \<Rightarrow> int \<Rightarrow> real \<Rightarrow> real
     \<Rightarrow> FakeQuantizeConfig option \<Rightarrow> FakeQuantizeConfig option \<Rightarrow> error + QATPiSSALinear" where
  "QATPiSSALinear_init env in_d out_d r a p activation_qat_config weight_qat_config =
     err_bind (PiSSALinear_init env in_d out_d r a p False False []) (\<lambda>base.
       if \<not> torchao_qat env
       then Inl torchao_error
       else
         err_bind (make_weight_quantizer in_d weight_qat_config) (\<lambda>wq.
           Inr (PiSSALinear.extend base
                  (QATPiSSALinear.fields
                     (case activation_qat_config of
                        None \<Rightarrow> QIdentity
                      | Some c \<Rightarrow> FakeQuantizer c)
                     wq))))"

text \<open>
  \<^verbatim>\<open>QATPiSSALinear.forward\<close> (lines 294-311): the base transform on the fake
  quantized input and weight (lines 303-305), then the adapter branch on the input
  as it was given.
\<close>

definition qat_base_out :: "torch_env \<Rightarrow> QATPiSSALinear \<Rightarrow> vec \<Rightarrow> error + vec" where
  "qat_base_out env l x =
     F_linear (call_quantizer_act env (activation_fake_quantizer l) x)
       (call_quantizer_weight env (weight_fake_quantizer l) (storage (weight l)))
       None"

definition QATPiSSALinear_forward :: "torch_env \<Rightarrow> QATPiSSALinear \<Rightarrow> vec \<Rightarrow> error + vec" where
  "QATPiSSALinear_forward env l x =
     err_bind (qat_base_out env l x) (\<lambda>out.
       if disabled l then Inr out else adapter_out env l x out)"

text \<open>
  \<^verbatim>\<open>QATPiSSALinear.from_lora_linear\<close> (lines 313-352). Lines 326-329 build two
  \<^verbatim>\<open>ValueError\<close> objects and do not raise them: \<open>unraised_bias\<close> and
  \<open>unraised_quantize_base\<close> are those objects, and nothing reads them. The new layer
  comes from the constructor; \<^verbatim>\<open>weight\<close>, \<^verbatim>\<open>pissa_u.weight\<close> and
  \<^verbatim>\<open>pissa_v.weight\<close> of the source replace the new layer's, each unless it is on the
  meta device.
\<close>

definition from_lora_linear ::
  "torch_env \<Rightarrow> 'a PiSSALinear_scheme \<Rightarrow> FakeQuantizeConfig option \<Rightarrow> FakeQuantizeConfig option
     \<Rightarrow> error + QATPiSSALinear" where
  "from_lora_linear env lora_linear activation_qat_config weight_qat_config =
     (let unraised_bias =
            (if bias lora_linear \<noteq> None
             then Some (ValueError ''Bias is not supported in QAT + PiSSA yet'') else None);
          unraised_quantize_base =
            (if quantize_base lora_linear
             then Some (ValueError ''quantize_base is not compatible with QAT + PiSSA'') else None);
          p = (case dropout lora_linear of Dropout q \<Rightarrow> q | Identity \<Rightarrow> 0)
      in
        err_bind (QATPiSSALinear_init env (in_dim lora_linear) (out_dim lora_linear)
                    (rank lora_linear) (alpha lora_linear) p
                    activation_qat_config weight_qat_config) (\<lambda>new_linear.
          Inr (new_linear
                 \<lparr>weight := (if \<not> is_meta (weight lora_linear)
                             then weight lora_linear else weight new_linear),
                  pissa_u_weight := (if \<not> is_meta (pissa_u_weight lora_linear)
                                     then pissa_u_weight lora_linear
                                     else pissa_u_weight new_linear),
                  pissa_v_weight := (if \<not> is_meta (pissa_v_weight lora_linear)
                                     then pissa_v_weight lora_linear
                                     else pissa_v_weight new_linear)\<rparr>)))"

subsection \<open>A concrete environment and concrete layers\<close>

text \<open>
  Fixed inputs on which the operations are evaluated. In \<open>example_env\<close> tensors are
  created on a real device, the base weight of a 2 by 2 layer is the diagonal matrix
  with entries 2 and 1, the NF4 codec stores a weight as it is, the dropout mask drops
  the entries of even index, and \<open>svd\<close> returns the singular value decomposition of
  that diagonal matrix (identity factors, singular values 2 and 1).
\<close>

definition example_env :: torch_env where
  "example_env =
     \<lparr>device_meta = False,
      linear_weight_init = (\<lambda>i j. if i = j then (if i = 0 then 2 else 1) else 0),
      linear_bias_init = (\<lambda>i. 5),
      kaiming_u = (\<lambda>i j. 1),
      kaiming_v = (\<lambda>i j. 3),
      to_nf4 = (\<lambda>kw w. Inr w),
      linear_nf4 = (\<lambda>x w. F_linear x w None),
      dropout_mask = (\<lambda>p i. if even i then 0 else 1 / (1 - p)),
      svd = (\<lambda>w. Inr (real_mat 2 2 (\<lambda>i j. if i = j then 1 else 0), of_reals [2, 1],
                         real_mat 2 2 (\<lambda>i j. if i = j then 1 else 0))),
      svd_lowrank = (\<lambda>w q n. Inl (RuntimeError ''svd_lowrank is not used'')),
      to_dtype = (\<lambda>v. v),
      torchao_qat = True,
      fake_quantize_act = (\<lambda>c x. x),
      fake_quantize_weight = (\<lambda>c w. w)\<rparr>"

text \<open>The same environment with the meta device as default device.\<close>

definition example_meta_env :: torch_env where
  "example_meta_env = example_env\<lparr>device_meta := True\<rparr>"

text \<open>Weight quantization configurations with a group size.\<close>

definition example_config :: "int \<Rightarrow> FakeQuantizeConfig" where
  "example_config g = \<lparr>group_size = Some g, is_symmetric = True, bits = 4\<rparr>"

text \<open>
  A layer with \<^verbatim>\<open>in_dim = out_dim = rank = 2\<close>, a bias and singular values
  \<open>[1, 1/2]\<close> in \<^verbatim>\<open>pissa_s\<close>, as a decomposition leaves them.
\<close>

definition example_source :: PiSSALinear where
  "example_source =
     \<lparr>in_dim = 2, out_dim = 2, rank = 2, alpha = 4, use_bias = True,
      quantize_base = False, disabled = False,
      weight = \<lparr>is_meta = False,
                 storage = real_mat 2 2 (\<lambda>i j. if i = j then 1 / (1 + real i) else 0)\<rparr>,
      bias = Some \<lparr>is_meta = False, storage = of_reals [5, 5]\<rparr>,
      dropout = Dropout (1 / 2),
      pissa_u_weight = \<lparr>is_meta = False,
                         storage = real_mat 2 2 (\<lambda>i j. if i = j then 1 else 0)\<rparr>,
      pissa_s = \<lparr>is_meta = False, storage = of_reals [1, 1 / 2]\<rparr>,
      pissa_v_weight = \<lparr>is_meta = True,
                         storage = real_mat 2 2 (\<lambda>i j. if i = j then 1 else 0)\<rparr>,
      merged = False\<rparr>"

text \<open>
  The layer that the constructor returns in \<open>example_env\<close> for
  \<^verbatim>\<open>in_dim = out_dim = rank = 2, alpha = 4, dropout = 0.5\<close>, with \<^verbatim>\<open>pissa_s\<close> set to
  \<open>[1, 1/2]\<close>, and the \<^verbatim>\<open>QATPiSSALinear\<close> with the same parameters and no fake
  quantization.
\<close>

definition example_layer :: PiSSALinear where
  "example_layer =
     \<lparr>in_dim = 2, out_dim = 2, rank = 2, alpha = 4, use_bias = False,
      quantize_base = False, disabled = False,
      weight = \<lparr>is_meta = False,
                 storage = \<lparr>nrows = 2, ncols = 2,
                            elems = [of_reals [2, 0], of_reals [0, 1]]\<rparr>\<rparr>,
      bias = None,
      dropout = Dropout (1 / 2),
      pissa_u_weight = \<lparr>is_meta = False,
                         storage = \<lparr>nrows = 2, ncols = 2,
                                    elems = [of_reals [1, 1], of_reals [1, 1]]\<rparr>\<rparr>,
      pissa_s = \<lparr>is_meta = False, storage = of_reals [1, 1 / 2]\<rparr>,
      pissa_v_weight = \<lparr>is_meta = False,
                         storage = \<lparr>nrows = 2, ncols = 2,
                                    elems = [of_reals [3, 3], of_reals [3, 3]]\<rparr>\<rparr>,
      merged = False\<rparr>"

definition example_qat_layer :: QATPiSSALinear where
  "example_qat_layer =
     PiSSALinear.extend example_layer (QATPiSSALinear.fields QIdentity QIdentity)"

text \<open>The same \<^verbatim>\<open>QATPiSSALinear\<close> with a fake quantizer for the input and the weight.\<close>

definition example_fq_layer :: QATPiSSALinear where
  "example_fq_layer =
     PiSSALinear.extend example_layer
       (QATPiSSALinear.fields (FakeQuantizer (example_config 2))
          (FakeQuantizer (example_config 2)))"

text \<open>
  A fake quantizer that saturates at \<open>-1\<close> and \<open>1\<close>, and the environment in which both
  fake quantizers are this one.
\<close>

definition saturate :: "f32 \<Rightarrow> f32" where
  "saturate v =
     (case v of
        Finite r \<Rightarrow> Finite (max (- 1) (min 1 r))
      | PosInf \<Rightarrow> Finite 1
      | NegInf \<Rightarrow> Finite (- 1)
      | NaN \<Rightarrow> NaN)"

definition example_qat_env :: torch_env where
  "example_qat_env =
     example_env
       \<lparr>fake_quantize_act := (\<lambda>c x. map saturate x),
        fake_quantize_weight := (\<lambda>c w. map_mat saturate w)\<rparr>"

section \<open>Properties\<close>

subsection \<open>Float32 arithmetic, shapes and zero vectors\<close>

lemma mk_mat_shape [simp]:
  "nrows (mk_mat r c f) = r" "ncols (mk_mat r c f) = c" "length (elems (mk_mat r c f)) = r"
  by (simp_all add: mk_mat_def)

lemma real_mat_shape [simp]:
  "nrows (real_mat r c f) = r" "ncols (real_mat r c f) = c"
  "length (elems (real_mat r c f)) = r"
  by (simp_all add: real_mat_def)

lemma real_mat_finite: "list_all (list_all is_finite) (elems (real_mat r c f))"
  by (simp add: real_mat_def mk_mat_def list_all_iff is_finite_def)

lemma max_float_pos: "0 < max_float"
  by (simp add: max_float_def)

lemma of_real_f32_in_range: "\<bar>r\<bar> \<le> max_float \<Longrightarrow> of_real_f32 r = Finite r"
  by (auto simp add: of_real_f32_def)

lemma of_real_f32_zero [simp]: "of_real_f32 0 = Finite 0"
  using max_float_pos by (simp add: of_real_f32_def)

lemma representable_of_real_f32: "representable (of_real_f32 r)"
  by (auto simp add: of_real_f32_def representable_def)

lemma fmul_finite_zero: "is_finite v \<Longrightarrow> fmul v (Finite 0) = Finite 0"
  by (cases v) (simp_all add: fmul_def is_finite_def)

lemma fmul_zero_in_range: "\<bar>s\<bar> \<le> max_float \<Longrightarrow> fmul (Finite 0) (of_real_f32 s) = Finite 0"
  by (simp add: of_real_f32_in_range fmul_def)

lemma fadd_zero_zero [simp]: "fadd (Finite 0) (Finite 0) = Finite 0"
  by (simp add: fadd_def)

lemma fadd_zero_right: "representable v \<Longrightarrow> fadd v (Finite 0) = v"
  by (cases v) (simp_all add: fadd_def representable_def of_real_f32_in_range)

lemma representable_fadd: "representable (fadd x y)"
  by (cases x; cases y) (simp_all add: fadd_def representable_of_real_f32, simp_all add: representable_def)

lemma representable_fsum: "representable (fsum vs)"
proof (cases vs rule: rev_cases)
  case Nil
  then show ?thesis
    using max_float_pos by (simp add: fsum_def representable_def)
next
  case (snoc ws w)
  then show ?thesis
    by (simp add: fsum_def representable_fadd)
qed

lemma foldl_fadd_zeros:
  "list_all is_finite row \<Longrightarrow> foldl fadd (Finite 0) (map2 fmul row (replicate n (Finite 0))) = Finite 0"
proof (induction row arbitrary: n)
  case Nil
  then show ?case by simp
next
  case (Cons a row)
  then show ?case
    by (cases n) (simp_all add: fmul_finite_zero)
qed

lemma dot_zeros: "list_all is_finite row \<Longrightarrow> dot row (replicate n (Finite 0)) = Finite 0"
  by (simp add: dot_def fsum_def foldl_fadd_zeros)

lemma map2_fmul_zeros:
  "list_all is_finite xs \<Longrightarrow> map2 fmul xs (replicate (length xs) (Finite 0)) = replicate (length xs) (Finite 0)"
  by (induction xs) (simp_all add: fmul_finite_zero)

lemma map2_fadd_zeros:
  "list_all representable xs \<Longrightarrow> map2 fadd xs (replicate (length xs) (Finite 0)) = xs"
  by (induction xs) (simp_all add: fadd_zero_right)

lemma map_dot_zeros:
  "list_all (list_all is_finite) rows
     \<Longrightarrow> map (\<lambda>row. dot row (replicate n (Finite 0))) rows = replicate (length rows) (Finite 0)"
  by (induction rows) (simp_all add: dot_zeros)

lemma length_call_dropout: "length (call_dropout env d x) = length x"
  by (cases d) (simp_all add: call_dropout_def)

lemma F_linear_shape: "F_linear x w b = Inr y \<Longrightarrow> length x = ncols w"
  by (simp add: F_linear_def split: if_splits)

lemma F_linear_length:
  assumes "F_linear x w b = Inr y"
    and "case b of None \<Rightarrow> True | Some bv \<Rightarrow> length bv = length (elems w)"
  shows "length y = length (elems w)"
  using assms by (auto simp add: F_linear_def broadcast1_def split: if_splits option.splits)

lemma broadcast1_fadd_representable:
  "broadcast1 fadd xs ys = Inr y \<Longrightarrow> list_all representable y"
  by (auto simp add: broadcast1_def list_all_iff representable_fadd split: if_splits)

lemma F_linear_representable: "F_linear x w b = Inr y \<Longrightarrow> list_all representable y"
  by (auto simp add: F_linear_def dot_def list_all_iff representable_fsum
      dest: broadcast1_fadd_representable split: if_splits option.splits)

text \<open>
  With a zero \<^verbatim>\<open>pissa_s\<close> of the size of the adapter's inner dimension, a nonzero
  rank, a scale within range and finite entries in the output of \<^verbatim>\<open>pissa_u\<close> and in
  \<^verbatim>\<open>pissa_v.weight\<close>, the adapter branch adds the zero vector.
\<close>

lemma adapter_out_zero:
  assumes s: "storage (pissa_s l) = replicate k (Finite 0)"
    and u: "length (elems (storage (pissa_u_weight l))) = k"
           "ncols (storage (pissa_u_weight l)) = length x"
    and fin: "list_all is_finite
                (map (\<lambda>row. dot row (call_dropout env (dropout l) x))
                   (elems (storage (pissa_u_weight l))))"
    and v: "ncols (storage (pissa_v_weight l)) = k"
           "length (elems (storage (pissa_v_weight l))) = length out"
           "list_all (list_all is_finite) (elems (storage (pissa_v_weight l)))"
    and r: "rank l \<noteq> 0"
    and scale: "\<bar>alpha l / real_of_int (rank l)\<bar> \<le> max_float"
    and out: "list_all representable out"
  shows "adapter_out env l x out = Inr out"
proof -
  let ?lora_u = "map (\<lambda>row. dot row (call_dropout env (dropout l) x))
                   (elems (storage (pissa_u_weight l)))"
  have 1: "F_linear (call_dropout env (dropout l) x) (storage (pissa_u_weight l)) None
             = Inr ?lora_u"
    using u by (simp add: F_linear_def length_call_dropout)
  have len: "length ?lora_u = k"
    using u by simp
  have 2: "broadcast1 fmul ?lora_u (storage (pissa_s l)) = Inr (replicate k (Finite 0))"
    using map2_fmul_zeros [OF fin] len by (simp add: broadcast1_def s)
  have 3: "F_linear (replicate k (Finite 0)) (storage (pissa_v_weight l)) None
             = Inr (replicate (length out) (Finite 0))"
    using v by (simp add: F_linear_def map_dot_zeros)
  have 4: "broadcast1 fadd out (replicate (length out) (Finite 0)) = Inr out"
    by (simp add: broadcast1_def map2_fadd_zeros [OF out])
  show ?thesis
    using r by (simp add: adapter_out_def err_bind_def 1 2 fmul_zero_in_range [OF scale] 3 4)
qed

subsection \<open>What the constructors establish\<close>

lemma PiSSALinear_init_fields:
  assumes "PiSSALinear_init env i od r a p ub qb kw = Inr l"
  shows "0 \<le> i" "0 \<le> od" "0 \<le> r"
    "rank l = r" "alpha l = a" "in_dim l = i" "out_dim l = od"
    "use_bias l = ub" "quantize_base l = qb" "disabled l = False"
    "pissa_s l = \<lparr>is_meta = device_meta env, storage = replicate (nat r) (Finite 0)\<rparr>"
    "pissa_u_weight l
       = \<lparr>is_meta = device_meta env, storage = real_mat (nat r) (nat i) (kaiming_u env)\<rparr>"
    "pissa_v_weight l
       = \<lparr>is_meta = device_meta env, storage = real_mat (nat od) (nat r) (kaiming_v env)\<rparr>"
    "bias l = (if ub then Some \<lparr>is_meta = device_meta env,
                                storage = map (\<lambda>k. Finite (linear_bias_init env k))
                                            [0..<nat od]\<rparr>
               else None)"
    "is_meta (weight l) = device_meta env"
    "\<not> qb \<Longrightarrow> storage (weight l) = real_mat (nat od) (nat i) (linear_weight_init env)"
    "qb \<Longrightarrow> to_nf4 env kw (real_mat (nat od) (nat i) (linear_weight_init env))
             = Inr (storage (weight l))"
    "make_dropout p = Inr (dropout l)" "merged l = False"
  using assms
  by (auto simp add: PiSSALinear_init_def err_bind_def nn_Linear_def
      split: if_splits sum.splits)

text \<open>
  Without configurations the constructor of \<^verbatim>\<open>QATPiSSALinear\<close> installs the identity
  for both fake quantizers, on a base layer without bias and without quantized weight.
\<close>

lemma QATPiSSALinear_init_no_configs:
  assumes "QATPiSSALinear_init env i od r a p None None = Inr q"
  shows "activation_fake_quantizer q = QIdentity" "weight_fake_quantizer q = QIdentity"
    "bias q = None" "\<not> quantize_base q" "\<not> disabled q"
    "PiSSALinear_init env i od r a p False False [] = Inr (PiSSALinear.truncate q)"
proof -
  from assms obtain base where base:
    "PiSSALinear_init env i od r a p False False [] = Inr base"
    and q: "q = PiSSALinear.extend base (QATPiSSALinear.fields QIdentity QIdentity)"
    by (auto simp add: QATPiSSALinear_init_def make_weight_quantizer_def err_bind_def
        split: sum.splits if_splits)
  note f = PiSSALinear_init_fields [OF base]
  show "activation_fake_quantizer q = QIdentity" "weight_fake_quantizer q = QIdentity"
    by (simp_all add: q PiSSALinear.defs QATPiSSALinear.defs)
  show "bias q = None" "\<not> quantize_base q" "\<not> disabled q"
    using f(9,10,14) by (simp_all add: q PiSSALinear.defs QATPiSSALinear.defs)
  show "PiSSALinear_init env i od r a p False False [] = Inr (PiSSALinear.truncate q)"
    by (simp add: base q PiSSALinear.defs QATPiSSALinear.defs)
qed

subsection \<open>Evaluation on concrete inputs\<close>

lemmas eval_defs =
  PiSSALinear_init_def QATPiSSALinear_init_def from_lora_linear_def initialize_pissa_def
  decompose_def write_back_def scale_singular_def niter_of_def make_weight_quantizer_def
  PiSSALinear_forward_def QATPiSSALinear_forward_def base_out_def qat_base_out_def
  adapter_out_def call_dropout_def call_quantizer_act_def call_quantizer_weight_def
  nn_Linear_def nn_Dropout_def make_dropout_def err_bind_def
  mk_mat_def real_mat_def of_reals_def entry_def expanded_def dot_def fsum_def F_linear_def
  matmul_def diag_def map_mat_def
  broadcast1_def broadcast2_def broadcast_dim_def copy1_def copy2_def
  slice_upto_def slice_cols_def slice_rows_def
  fadd_def fsub_def fneg_def fmul_def fdiv_def of_real_f32_def max_float_def
  inf_of_sign_def sign_of_def
  example_env_def example_meta_env_def example_config_def example_source_def
  example_layer_def example_qat_layer_def example_fq_layer_def example_qat_env_def
  saturate_def
  quantization_kwargs_error_def meta_device_error_def group_size_error_def torchao_error_def
  PiSSALinear.defs QATPiSSALinear.defs Let_def upt_rec eval_nat_numeral

section \<open>The claims\<close>

subsection \<open>C1: the decomposition and the original weight\<close>

text \<open>
  Claim C1 says that after \<^verbatim>\<open>initialize_pissa\<close> on the exact SVD path with
  \<^verbatim>\<open>rank = min(out_dim, in_dim)\<close> the layer computes \<open>W x\<close> for the original weight
  \<open>W\<close>. The code divides the singular values by \<^verbatim>\<open>alpha / rank\<close> in place and then
  subtracts the product built from the divided values, so the residual is
  \<open>W - V diag(S) U / (alpha / rank)\<close> while the adapter contributes \<open>V diag(S) U\<close>.
  Evaluated on the layer with \<^verbatim>\<open>in_dim = out_dim = rank = 2\<close>, \<^verbatim>\<open>alpha = 4\<close> and the
  weight \<open>W\<close> with rows \<open>[2, 0]\<close> and \<open>[0, 1]\<close>: \<open>svd\<close> returns factors whose product is
  \<open>W\<close>, \<open>W\<close> maps \<open>[1, 1]\<close> to \<open>[2, 1]\<close>, the call succeeds, and \<^verbatim>\<open>forward\<close> then
  maps \<open>[1, 1]\<close> to \<open>[3, 3/2]\<close>.
\<close>

theorem initialize_pissa_example_not_original:
  "(case PiSSALinear_init example_env 2 2 2 4 0 False False [] of
      Inl e \<Rightarrow> False
    | Inr l \<Rightarrow>
        svd example_env (storage (weight l))
          = Inr (real_mat 2 2 (\<lambda>i j. if i = j then 1 else 0), of_reals [2, 1],
                 real_mat 2 2 (\<lambda>i j. if i = j then 1 else 0))
      \<and> err_bind (matmul (real_mat 2 2 (\<lambda>i j. if i = j then 1 else 0)) (diag (of_reals [2, 1])))
           (\<lambda>vs. matmul vs (real_mat 2 2 (\<lambda>i j. if i = j then 1 else 0)))
          = Inr (storage (weight l))
      \<and> F_linear (of_reals [1, 1]) (storage (weight l)) None = Inr (of_reals [2, 1])
      \<and> (case initialize_pissa example_env PyNone l of
            (e, l') \<Rightarrow>
              e = None
            \<and> storage (pissa_s l') = of_reals [1, 1 / 2]
            \<and> elems (storage (weight l')) = [of_reals [1, 0], of_reals [0, 1 / 2]]
            \<and> PiSSALinear_forward example_env l' (of_reals [1, 1])
                = Inr (of_reals [3, 3 / 2])))"
  by (simp add: eval_defs)

subsection \<open>C2: from_lora_linear on a source with a bias or a quantized base\<close>

text \<open>
  Claim C2 says that \<^verbatim>\<open>from_lora_linear\<close> raises for a source that has a bias or
  has \<^verbatim>\<open>quantize_base\<close> set. Lines 327 and 329 build the exception and lack the
  \<^verbatim>\<open>raise\<close>. Evaluated on the layer constructed with \<^verbatim>\<open>use_bias=True\<close> and on the
  layer constructed with \<^verbatim>\<open>quantize_base=True\<close>: the call returns a
  \<^verbatim>\<open>QATPiSSALinear\<close> in both cases.
\<close>

theorem from_lora_linear_example_returns:
  "(case PiSSALinear_init example_env 2 2 1 4 0 True False [] of
      Inl e \<Rightarrow> False
    | Inr l \<Rightarrow> use_bias l \<and> bias l \<noteq> None
              \<and> \<not> isl (from_lora_linear example_env l None None))
   \<and> (case PiSSALinear_init example_env 2 2 1 4 0 False True [] of
      Inl e \<Rightarrow> False
    | Inr l \<Rightarrow> quantize_base l \<and> \<not> isl (from_lora_linear example_env l None None))"
  by (simp add: eval_defs)

subsection \<open>C3: the forward pass right after construction\<close>

text \<open>
  Claim C3 says that right after construction \<^verbatim>\<open>pissa_s\<close> is the zero vector and
  \<^verbatim>\<open>forward\<close> returns the output of the base transform for every input. The zero
  vector is there, but the second part fails on two inputs. The layer constructed with
  \<^verbatim>\<open>rank = 0\<close> has an empty \<^verbatim>\<open>pissa_s\<close>, its base transform maps \<open>[1, 1]\<close> to
  \<open>[2, 1]\<close>, and \<^verbatim>\<open>forward\<close> raises \<^verbatim>\<open>ZeroDivisionError\<close> at
  \<^verbatim>\<open>self.alpha / self.rank\<close>. On the layer constructed with \<^verbatim>\<open>rank = 1\<close> the base
  transform maps \<open>[1e38, 3e38]\<close> to \<open>[2e38, 3e38]\<close>, while \<^verbatim>\<open>pissa_u\<close> overflows to
  infinity, infinity times the zero of \<^verbatim>\<open>pissa_s\<close> is NaN, and \<^verbatim>\<open>forward\<close> returns
  \<open>[NaN, NaN]\<close>.
\<close>

theorem forward_after_init_differs:
  "(case PiSSALinear_init example_env 2 2 0 4 0 False False [] of
      Inl e \<Rightarrow> False
    | Inr l \<Rightarrow>
        storage (pissa_s l) = []
      \<and> F_linear (of_reals [1, 1]) (storage (weight l)) None = Inr (of_reals [2, 1])
      \<and> PiSSALinear_forward example_env l (of_reals [1, 1])
          = Inl (ZeroDivisionError ''division by zero''))
   \<and> (case PiSSALinear_init example_env 2 2 1 4 0 False False [] of
      Inl e \<Rightarrow> False
    | Inr l \<Rightarrow>
        storage (pissa_s l) = [Finite 0]
      \<and> F_linear (of_reals [10 ^ 38, 3 * 10 ^ 38]) (storage (weight l)) None
          = Inr (of_reals [2 * 10 ^ 38, 3 * 10 ^ 38])
      \<and> PiSSALinear_forward example_env l (of_reals [10 ^ 38, 3 * 10 ^ 38])
          = Inr [NaN, NaN])"
  by (simp add: eval_defs)

text \<open>
  Claim C3, amended. Right after construction \<^verbatim>\<open>pissa_s\<close> is the zero vector of
  length \<^verbatim>\<open>rank\<close>. If the rank is positive, \<^verbatim>\<open>alpha / rank\<close> is within the range of
  float32 and every entry of \<^verbatim>\<open>pissa_u(dropout(x))\<close> is finite, then \<^verbatim>\<open>forward(x)\<close>
  is the output of the base transform, whatever was drawn for \<^verbatim>\<open>pissa_u\<close> and
  \<^verbatim>\<open>pissa_v\<close> and whatever the dropout: on the default path
  \<^verbatim>\<open>F.linear(x, weight, bias)\<close> with the weight and the bias that the constructor
  drew; on the quantized path \<^verbatim>\<open>linear_nf4(x, weight)\<close> plus the bias, where the NF4
  linear map is a parameter, assumed to take, when it returns, an input of size
  \<^verbatim>\<open>in_dim\<close> to an output of size \<^verbatim>\<open>out_dim\<close> of float32 values.
\<close>

theorem forward_after_init_is_base:
  assumes init: "PiSSALinear_init env i od r a p ub qb kw = Inr l"
    and rank: "0 < r"
    and scale: "\<bar>a / real_of_int r\<bar> \<le> max_float"
    and fin: "list_all is_finite
                (map (\<lambda>row. dot row (call_dropout env (dropout l) x))
                   (elems (storage (pissa_u_weight l))))"
    and codec: "\<And>y. qb \<Longrightarrow> linear_nf4 env x (storage (weight l)) = Inr y
                  \<Longrightarrow> length x = nat i \<and> length y = nat od \<and> list_all representable y"
  shows "storage (pissa_s l) = replicate (nat r) (Finite 0)
       \<and> (\<not> qb \<longrightarrow>
            PiSSALinear_forward env l x
              = F_linear x (real_mat (nat od) (nat i) (linear_weight_init env))
                  (if ub then Some (map (\<lambda>k. Finite (linear_bias_init env k)) [0..<nat od])
                   else None))
       \<and> (qb \<longrightarrow>
            PiSSALinear_forward env l x
              = err_bind (linear_nf4 env x (storage (weight l)))
                  (\<lambda>out. if ub
                          then broadcast1 fadd out
                                 (map (\<lambda>k. Finite (linear_bias_init env k)) [0..<nat od])
                          else Inr out))"
proof -
  note f = PiSSALinear_init_fields [OF init]
  have zero: "storage (pissa_s l) = replicate (nat r) (Finite 0)"
    by (simp add: f)
  have same: "PiSSALinear_forward env l x = base_out env l x"
  proof (cases "base_out env l x")
    case (Inl e)
    then show ?thesis
      by (simp add: PiSSALinear_forward_def err_bind_def)
  next
    case (Inr out)
    have shape: "length x = nat i \<and> length out = nat od \<and> list_all representable out"
    proof (cases qb)
      case True
      from Inr True f(9) obtain y where y: "linear_nf4 env x (storage (weight l)) = Inr y"
        and out: "(if ub then (case bias l of
                                 None \<Rightarrow> Inl (TypeError ''unsupported operand type(s) for +'')
                               | Some b \<Rightarrow> broadcast1 fadd y (storage b))
                   else Inr y) = Inr out"
        by (auto simp add: base_out_def err_bind_def f(8) split: sum.splits)
      from codec [OF True y]
      have ly: "length x = nat i" "length y = nat od" "list_all representable y"
        by simp_all
      from out ly have "length out = nat od"
        by (auto simp add: f(14) broadcast1_def split: if_splits)
      moreover from out ly(3) have "list_all representable out"
        by (auto simp add: f(14) dest: broadcast1_fadd_representable split: if_splits)
      ultimately show ?thesis
        using ly by simp
    next
      case False
      from Inr False f(9)
      have fl: "F_linear x (storage (weight l)) (map_option storage (bias l)) = Inr out"
        by (simp add: base_out_def)
      have "length x = nat i"
        using F_linear_shape [OF fl] f(16) [OF False] by simp
      moreover have "length out = nat od"
        using F_linear_length [OF fl] f(16) [OF False] by (simp add: f(14))
      ultimately show ?thesis
        using F_linear_representable [OF fl] by simp
    qed
    have "adapter_out env l x out = Inr out"
      by (rule adapter_out_zero [where k = "nat r"])
        (use rank scale shape fin in \<open>simp_all add: f real_mat_finite\<close>)
    with Inr show ?thesis
      by (simp add: PiSSALinear_forward_def err_bind_def)
  qed
  have plain: "PiSSALinear_forward env l x
                 = F_linear x (real_mat (nat od) (nat i) (linear_weight_init env))
                     (if ub then Some (map (\<lambda>k. Finite (linear_bias_init env k)) [0..<nat od])
                      else None)" if "\<not> qb"
    using that f(16) [OF that] by (simp add: same base_out_def f(9,14))
  have quant: "PiSSALinear_forward env l x
                 = err_bind (linear_nf4 env x (storage (weight l)))
                     (\<lambda>out. if ub
                             then broadcast1 fadd out
                                    (map (\<lambda>k. Finite (linear_bias_init env k)) [0..<nat od])
                             else Inr out)" if qb
    using that by (simp add: same base_out_def f(8,9,14) cong: if_cong)
  from zero plain quant show ?thesis
    by simp
qed

text \<open>
  The theorem on the default path, at a layer with a bias and dropout 0.5 and at a
  layer without either, on the input \<open>[1, 2]\<close>: the weight has rows \<open>[2, 0]\<close> and
  \<open>[0, 1]\<close>, the bias is \<open>[5, 5]\<close>, and the outputs are \<open>[7, 7]\<close> and \<open>[2, 2]\<close>.
\<close>

theorem forward_after_init_is_base_witness:
  "(case PiSSALinear_init example_env 2 2 1 4 (1 / 2) True False [] of
      Inl e \<Rightarrow> False
    | Inr l \<Rightarrow> storage (pissa_s l) = [Finite 0]
        \<and> elems (storage (weight l)) = [of_reals [2, 0], of_reals [0, 1]]
        \<and> map_option storage (bias l) = Some (of_reals [5, 5])
        \<and> PiSSALinear_forward example_env l (of_reals [1, 2]) = Inr (of_reals [7, 7]))
   \<and> (case PiSSALinear_init example_env 2 2 1 4 0 False False [] of
      Inl e \<Rightarrow> False
    | Inr l \<Rightarrow> PiSSALinear_forward example_env l (of_reals [1, 2]) = Inr (of_reals [2, 2]))"
proof -
  let ?x = "of_reals [1, 2]"
  obtain l where l: "PiSSALinear_init example_env 2 2 1 4 (1 / 2) True False [] = Inr l"
    by (simp add: eval_defs)
  note f = PiSSALinear_init_fields [OF l]
  have d: "dropout l = Dropout (1 / 2)"
    using f(18) by (simp add: make_dropout_def nn_Dropout_def)
  have fin: "list_all is_finite
               (map (\<lambda>row. dot row (call_dropout example_env (dropout l) ?x))
                  (elems (storage (pissa_u_weight l))))"
    by (simp add: d f(12) is_finite_def eval_defs)
  have "storage (pissa_s l) = replicate (nat 1) (Finite 0)
        \<and> (\<not> False \<longrightarrow>
             PiSSALinear_forward example_env l ?x
               = F_linear ?x (real_mat (nat 2) (nat 2) (linear_weight_init example_env))
                   (if True then Some (map (\<lambda>k. Finite (linear_bias_init example_env k)) [0..<nat 2])
                    else None))
        \<and> (False \<longrightarrow>
             PiSSALinear_forward example_env l ?x
               = err_bind (linear_nf4 example_env ?x (storage (weight l)))
                   (\<lambda>out. if True
                           then broadcast1 fadd out
                                  (map (\<lambda>k. Finite (linear_bias_init example_env k)) [0..<nat 2])
                           else Inr out))"
    by (rule forward_after_init_is_base [OF l _ _ fin]) (simp_all add: max_float_def)
  then have 1: "PiSSALinear_forward example_env l ?x = Inr (of_reals [7, 7])"
    and s: "storage (pissa_s l) = [Finite 0]"
    by (simp_all add: eval_defs)
  obtain l' where l': "PiSSALinear_init example_env 2 2 1 4 0 False False [] = Inr l'"
    by (simp add: eval_defs)
  note f' = PiSSALinear_init_fields [OF l']
  have d': "dropout l' = Identity"
    using f'(18) by (simp add: make_dropout_def)
  have fin': "list_all is_finite
               (map (\<lambda>row. dot row (call_dropout example_env (dropout l') ?x))
                  (elems (storage (pissa_u_weight l'))))"
    by (simp add: d' f'(12) is_finite_def eval_defs)
  have "storage (pissa_s l') = replicate (nat 1) (Finite 0)
        \<and> (\<not> False \<longrightarrow>
             PiSSALinear_forward example_env l' ?x
               = F_linear ?x (real_mat (nat 2) (nat 2) (linear_weight_init example_env))
                   (if False then Some (map (\<lambda>k. Finite (linear_bias_init example_env k)) [0..<nat 2])
                    else None))
        \<and> (False \<longrightarrow>
             PiSSALinear_forward example_env l' ?x
               = err_bind (linear_nf4 example_env ?x (storage (weight l')))
                   (\<lambda>out. if False
                           then broadcast1 fadd out
                                  (map (\<lambda>k. Finite (linear_bias_init example_env k)) [0..<nat 2])
                           else Inr out))"
    by (rule forward_after_init_is_base [OF l' _ _ fin']) (simp_all add: max_float_def)
  then have 2: "PiSSALinear_forward example_env l' ?x = Inr (of_reals [2, 2])"
    by (simp add: eval_defs)
  have w: "elems (storage (weight l)) = [of_reals [2, 0], of_reals [0, 1]]"
    "map_option storage (bias l) = Some (of_reals [5, 5])"
    using f(14,16) by (simp_all add: eval_defs)
  show ?thesis
    by (simp add: l l' 1 2 s w)
qed

subsection \<open>C4: a disabled adapter\<close>

text \<open>
  Claim C4. With \<^verbatim>\<open>disabled\<close> set, \<^verbatim>\<open>forward\<close> returns the output of the base
  transform alone, for every input and every state of the layer, whatever
  \<^verbatim>\<open>pissa_u\<close>, \<^verbatim>\<open>pissa_s\<close>, \<^verbatim>\<open>pissa_v\<close> and the dropout module are. For a
  \<^verbatim>\<open>PiSSALinear\<close> without quantized base that is \<^verbatim>\<open>F.linear(x, weight, bias)\<close>: for an
  input of the right size, the products of the rows of the weight with \<open>x\<close>, plus the
  bias if there is one. With a quantized base it is \<^verbatim>\<open>linear_nf4(x, weight)\<close>, plus the
  bias under \<^verbatim>\<open>use_bias\<close>. For a \<^verbatim>\<open>QATPiSSALinear\<close> it is \<^verbatim>\<open>F.linear\<close> of the fake
  quantized input and the fake quantized weight, each left as it is by an identity
  quantizer.
\<close>

theorem forward_disabled_is_base:
  "(\<not> quantize_base l \<longrightarrow>
      PiSSALinear_forward env
        (l\<lparr>disabled := True, pissa_u_weight := u, pissa_s := s, pissa_v_weight := v,
           dropout := d\<rparr>) x
        = F_linear x (storage (weight l)) (map_option storage (bias l)))
   \<and> (\<not> quantize_base l \<and> bias l = None \<and> length x = ncols (storage (weight l)) \<longrightarrow>
      PiSSALinear_forward env
        (l\<lparr>disabled := True, pissa_u_weight := u, pissa_s := s, pissa_v_weight := v,
           dropout := d\<rparr>) x
        = Inr (map (\<lambda>row. fsum (map2 fmul row x)) (elems (storage (weight l)))))
   \<and> (\<not> quantize_base l \<and> bias l = Some b \<and> length x = ncols (storage (weight l))
        \<and> length (storage b) = length (elems (storage (weight l))) \<longrightarrow>
      PiSSALinear_forward env
        (l\<lparr>disabled := True, pissa_u_weight := u, pissa_s := s, pissa_v_weight := v,
           dropout := d\<rparr>) x
        = Inr (map2 fadd (map (\<lambda>row. fsum (map2 fmul row x)) (elems (storage (weight l))))
                 (storage b)))
   \<and> (quantize_base l \<longrightarrow>
      PiSSALinear_forward env
        (l\<lparr>disabled := True, pissa_u_weight := u, pissa_s := s, pissa_v_weight := v,
           dropout := d\<rparr>) x
        = (case linear_nf4 env x (storage (weight l)) of
             Inl e \<Rightarrow> Inl e
           | Inr out \<Rightarrow>
               if use_bias l
               then (case bias l of
                       None \<Rightarrow> Inl (TypeError ''unsupported operand type(s) for +'')
                     | Some b \<Rightarrow> broadcast1 fadd out (storage b))
               else Inr out))
   \<and> QATPiSSALinear_forward env
        (q\<lparr>disabled := True, pissa_u_weight := u, pissa_s := s, pissa_v_weight := v,
           dropout := d\<rparr>) x
        = F_linear
            (case activation_fake_quantizer q of
               QIdentity \<Rightarrow> x | FakeQuantizer c \<Rightarrow> fake_quantize_act env c x)
            (case weight_fake_quantizer q of
               QIdentity \<Rightarrow> storage (weight q)
             | FakeQuantizer c \<Rightarrow> fake_quantize_weight env c (storage (weight q)))
            None"
  by (simp add: PiSSALinear_forward_def QATPiSSALinear_forward_def base_out_def
      qat_base_out_def err_bind_def F_linear_def dot_def broadcast1_def
      call_quantizer_act_def call_quantizer_weight_def split: sum.splits)

text \<open>
  The theorem at a layer with bias \<open>[5, 5]\<close> and weight rows \<open>[1, 0]\<close>, \<open>[0, 1/2]\<close> on the
  input \<open>[1, 2]\<close>: disabled it returns \<open>[6, 6]\<close> for other adapter tensors and for its
  own, enabled it returns \<open>[6, 10]\<close>. And at a \<^verbatim>\<open>QATPiSSALinear\<close> with saturating fake
  quantizers and weight rows \<open>[2, 0]\<close>, \<open>[0, 1]\<close> on the input \<open>[3, 1/2]\<close>: disabled it
  returns \<open>[1, 1/2]\<close>, where the weight itself maps the input to \<open>[6, 1/2]\<close>.
\<close>

theorem forward_disabled_is_base_witness:
  "PiSSALinear_forward example_env
     (example_source\<lparr>disabled := True, pissa_u_weight := pissa_u_weight example_layer,
        pissa_s := pissa_s example_layer, pissa_v_weight := pissa_v_weight example_layer,
        dropout := Identity\<rparr>) (of_reals [1, 2])
     = Inr (of_reals [6, 6])
   \<and> PiSSALinear_forward example_env (example_source\<lparr>disabled := True\<rparr>) (of_reals [1, 2])
     = Inr (of_reals [6, 6])
   \<and> PiSSALinear_forward example_env example_source (of_reals [1, 2])
     = Inr (of_reals [6, 10])
   \<and> QATPiSSALinear_forward example_qat_env
       (example_fq_layer
          \<lparr>disabled := True, pissa_u_weight := pissa_u_weight example_source,
           pissa_s := pissa_s example_source, pissa_v_weight := pissa_v_weight example_source,
           dropout := Identity\<rparr>) (of_reals [3, 1 / 2])
     = Inr (of_reals [1, 1 / 2])
   \<and> F_linear (of_reals [3, 1 / 2]) (storage (weight example_fq_layer)) None
     = Inr (of_reals [6, 1 / 2])"
proof -
  let ?x = "of_reals [1, 2]"
  let ?b = "\<lparr>is_meta = False, storage = of_reals [5, 5]\<rparr>"
  let ?q = "example_fq_layer"
  have "PiSSALinear_forward example_env
          (example_source\<lparr>disabled := True, pissa_u_weight := pissa_u_weight example_layer,
             pissa_s := pissa_s example_layer, pissa_v_weight := pissa_v_weight example_layer,
             dropout := Identity\<rparr>) ?x
          = Inr (map2 fadd (map (\<lambda>row. fsum (map2 fmul row ?x))
                              (elems (storage (weight example_source))))
                   (storage ?b))"
    by (rule forward_disabled_is_base
          [where b = ?b, THEN conjunct2, THEN conjunct2, THEN conjunct1, rule_format])
      (simp add: example_source_def of_reals_def)
  also have "\<dots> = Inr (of_reals [6, 6])"
    by (simp add: eval_defs)
  finally have plain: "PiSSALinear_forward example_env
          (example_source\<lparr>disabled := True, pissa_u_weight := pissa_u_weight example_layer,
             pissa_s := pissa_s example_layer, pissa_v_weight := pissa_v_weight example_layer,
             dropout := Identity\<rparr>) ?x = Inr (of_reals [6, 6])" .
  have "QATPiSSALinear_forward example_qat_env
          (?q\<lparr>disabled := True, pissa_u_weight := pissa_u_weight example_source,
              pissa_s := pissa_s example_source, pissa_v_weight := pissa_v_weight example_source,
              dropout := Identity\<rparr>) (of_reals [3, 1 / 2])
          = F_linear
              (case activation_fake_quantizer ?q of
                 QIdentity \<Rightarrow> of_reals [3, 1 / 2]
               | FakeQuantizer c \<Rightarrow> fake_quantize_act example_qat_env c (of_reals [3, 1 / 2]))
              (case weight_fake_quantizer ?q of
                 QIdentity \<Rightarrow> storage (weight ?q)
               | FakeQuantizer c \<Rightarrow> fake_quantize_weight example_qat_env c (storage (weight ?q)))
              None"
    by (rule forward_disabled_is_base
          [THEN conjunct2, THEN conjunct2, THEN conjunct2, THEN conjunct2])
  also have "\<dots> = Inr (of_reals [1, 1 / 2])"
    by (simp add: eval_defs)
  finally have qat0: "QATPiSSALinear_forward example_qat_env
          (?q\<lparr>disabled := True, pissa_u_weight := pissa_u_weight example_source,
              pissa_s := pissa_s example_source, pissa_v_weight := pissa_v_weight example_source,
              dropout := Identity\<rparr>) (of_reals [3, 1 / 2]) = Inr (of_reals [1, 1 / 2])" .
  have evals: "PiSSALinear_forward example_env (example_source\<lparr>disabled := True\<rparr>) ?x
             = Inr (of_reals [6, 6])"
    "PiSSALinear_forward example_env example_source ?x = Inr (of_reals [6, 10])"
    "F_linear (of_reals [3, 1 / 2]) (storage (weight example_fq_layer)) None
       = Inr (of_reals [6, 1 / 2])"
    by (simp_all add: eval_defs)
  from plain qat0 evals show ?thesis
    by (intro conjI)
qed

subsection \<open>C5: quantization keyword arguments without quantize_base\<close>

text \<open>
  Claim C5. With \<^verbatim>\<open>quantize_base=False\<close> the constructor raises the
  \<^verbatim>\<open>ValueError\<close> of line 69 if and only if some keyword argument has a truthy
  value; keyword arguments that are all falsy are accepted: the constructor then
  does what it does without any keyword argument.
\<close>

theorem init_kwargs_guard:
  "(PiSSALinear_init env i od r a p ub False kw = Inl quantization_kwargs_error
      \<longleftrightarrow> list_ex truthy (map snd kw))
   \<and> (\<not> list_ex truthy (map snd kw)
      \<longrightarrow> PiSSALinear_init env i od r a p ub False kw
          = PiSSALinear_init env i od r a p ub False [])"
  by (auto simp add: PiSSALinear_init_def err_bind_def nn_Linear_def make_dropout_def
      nn_Dropout_def quantization_kwargs_error_def split: sum.splits if_splits)

text \<open>
  The theorem at \<^verbatim>\<open>block_size=64\<close> (refused) and at \<^verbatim>\<open>block_size=0\<close> (accepted),
  each with \<^verbatim>\<open>scaler_block_size=None\<close>.
\<close>

theorem init_kwargs_guard_witness:
  "PiSSALinear_init example_env 2 2 1 4 0 False False
       [(''block_size'', PyInt 64), (''scaler_block_size'', PyNone)]
     = Inl quantization_kwargs_error
   \<and> PiSSALinear_init example_env 2 2 1 4 0 False False
       [(''block_size'', PyInt 0), (''scaler_block_size'', PyNone)]
     = PiSSALinear_init example_env 2 2 1 4 0 False False []
   \<and> \<not> isl (PiSSALinear_init example_env 2 2 1 4 0 False False [])"
proof -
  have "\<not> isl (PiSSALinear_init example_env 2 2 1 4 0 False False [])"
    by (simp add: eval_defs)
  then show ?thesis
    using init_kwargs_guard [of example_env 2 2 1 4 0 False
          "[(''block_size'', PyInt 64), (''scaler_block_size'', PyNone)]"]
      init_kwargs_guard [of example_env 2 2 1 4 0 False
          "[(''block_size'', PyInt 0), (''scaler_block_size'', PyNone)]"]
    by simp
qed

subsection \<open>C6: the group size of the weight quantization\<close>

text \<open>
  Claim C6 says that the constructor of \<^verbatim>\<open>QATPiSSALinear\<close> raises the
  \<^verbatim>\<open>ValueError\<close> of line 286 whenever the group size does not divide \<^verbatim>\<open>in_dim\<close>,
  and succeeds on this check whenever it does. For the group size 0 the check
  \<^verbatim>\<open>in_dim % group_size\<close> itself raises \<^verbatim>\<open>ZeroDivisionError\<close>: with \<^verbatim>\<open>in_dim = 6\<close>,
  which 0 does not divide, the error is not the \<^verbatim>\<open>ValueError\<close>, and with
  \<^verbatim>\<open>in_dim = 0\<close>, which 0 divides, construction fails.
\<close>

theorem qat_init_group_size_zero:
  "group_size (example_config 0) = Some 0
   \<and> \<not> (0 :: int) dvd 6
   \<and> QATPiSSALinear_init example_env 6 2 1 4 0 None (Some (example_config 0))
       = Inl (ZeroDivisionError ''integer modulo by zero'')
   \<and> QATPiSSALinear_init example_env 6 2 1 4 0 None (Some (example_config 0))
       \<noteq> Inl group_size_error
   \<and> (0 :: int) dvd 0
   \<and> isl (QATPiSSALinear_init example_env 0 2 1 4 0 None (Some (example_config 0)))"
  by (simp add: eval_defs)

text \<open>
  Claim C6, amended. When the constructor of the base class succeeds and torchao's QAT
  interface is there, the constructor of \<^verbatim>\<open>QATPiSSALinear\<close> raises the
  \<^verbatim>\<open>ValueError\<close> of line 286 for a weight configuration whose group size is not zero
  and does not divide \<^verbatim>\<open>in_dim\<close>; it succeeds when there is no weight configuration,
  when its group size is \<^verbatim>\<open>None\<close>, and when its group size is not zero and divides
  \<^verbatim>\<open>in_dim\<close>; for the group size 0 it raises \<^verbatim>\<open>ZeroDivisionError\<close>, whatever
  \<^verbatim>\<open>in_dim\<close> is.
\<close>

theorem qat_init_group_size:
  assumes base: "\<not> isl (PiSSALinear_init env i od r a p False False [])"
    and api: "torchao_qat env"
  shows "(weight_qat_config = Some c \<and> group_size c = Some g \<and> g \<noteq> 0 \<and> \<not> g dvd i
            \<longrightarrow> QATPiSSALinear_init env i od r a p activation_qat_config weight_qat_config
                  = Inl group_size_error)
       \<and> (weight_qat_config = None
            \<or> weight_qat_config = Some c
              \<and> (group_size c = None \<or> group_size c = Some g \<and> g \<noteq> 0 \<and> g dvd i)
            \<longrightarrow> \<not> isl (QATPiSSALinear_init env i od r a p activation_qat_config
                         weight_qat_config))
       \<and> (weight_qat_config = Some c \<and> group_size c = Some 0
            \<longrightarrow> QATPiSSALinear_init env i od r a p activation_qat_config weight_qat_config
                  = Inl (ZeroDivisionError ''integer modulo by zero''))"
proof -
  from base obtain b where b: "PiSSALinear_init env i od r a p False False [] = Inr b"
    by (cases "PiSSALinear_init env i od r a p False False []") simp_all
  show ?thesis
    using api
    by (auto simp add: QATPiSSALinear_init_def make_weight_quantizer_def err_bind_def
        dvd_eq_mod_eq_0 b)
qed

text \<open>The theorem at \<^verbatim>\<open>in_dim = 6\<close>: group size 4 is refused, group size 3 and no
  configuration are accepted, group size 0 raises \<^verbatim>\<open>ZeroDivisionError\<close>.\<close>

theorem qat_init_group_size_witness:
  "QATPiSSALinear_init example_env 6 2 1 4 0 None (Some (example_config 4)) = Inl group_size_error
   \<and> \<not> isl (QATPiSSALinear_init example_env 6 2 1 4 0 None (Some (example_config 3)))
   \<and> \<not> isl (QATPiSSALinear_init example_env 6 2 1 4 0 None None)
   \<and> QATPiSSALinear_init example_env 6 2 1 4 0 None (Some (example_config 0))
       = Inl (ZeroDivisionError ''integer modulo by zero'')"
proof -
  have base: "\<not> isl (PiSSALinear_init example_env 6 2 1 4 0 False False [])"
    by (simp add: eval_defs)
  have api: "torchao_qat example_env"
    by (simp add: example_env_def)
  show ?thesis
    using qat_init_group_size [OF base api, of "Some (example_config 4)" "example_config 4" 4 None]
      qat_init_group_size [OF base api, of "Some (example_config 3)" "example_config 3" 3 None]
      qat_init_group_size [OF base api, of None "example_config 3" 3 None]
      qat_init_group_size [OF base api, of "Some (example_config 0)" "example_config 0" 1 None]
    by (simp add: example_config_def)
qed

subsection \<open>C7: initialize_pissa on meta tensors\<close>

text \<open>
  Claim C7. If one of \<^verbatim>\<open>weight\<close>, \<^verbatim>\<open>pissa_u.weight\<close>, \<^verbatim>\<open>pissa_s\<close>,
  \<^verbatim>\<open>pissa_v.weight\<close> is on the meta device, \<^verbatim>\<open>initialize_pissa\<close> raises the
  \<^verbatim>\<open>RuntimeError\<close> of line 134 and the layer is as it was before the call, for every
  \<^verbatim>\<open>fsvd_niter\<close>.
\<close>

theorem initialize_pissa_meta:
  assumes "is_meta (weight l) \<or> is_meta (pissa_u_weight l) \<or> is_meta (pissa_s l)
             \<or> is_meta (pissa_v_weight l)"
  shows "initialize_pissa env fsvd_niter l = (Some meta_device_error, l)"
  using assms by (simp add: initialize_pissa_def)

text \<open>
  The theorem at a layer of which only \<^verbatim>\<open>pissa_v.weight\<close> is a meta tensor, and
  at the layer that the constructor returns when the default device is the meta device.
\<close>

theorem initialize_pissa_meta_witness:
  "is_meta (pissa_v_weight example_source)
   \<and> \<not> is_meta (weight example_source)
   \<and> initialize_pissa example_env PyNone example_source
       = (Some meta_device_error, example_source)
   \<and> initialize_pissa example_env (PyInt 2) example_source
       = (Some meta_device_error, example_source)
   \<and> (case PiSSALinear_init example_meta_env 2 2 2 4 0 False False [] of
         Inl e \<Rightarrow> False
       | Inr l \<Rightarrow> initialize_pissa example_env PyNone l = (Some meta_device_error, l))"
proof -
  have m: "is_meta (pissa_v_weight example_source)" "\<not> is_meta (weight example_source)"
    by (simp_all add: example_source_def)
  obtain l where l: "PiSSALinear_init example_meta_env 2 2 2 4 0 False False [] = Inr l"
    by (simp add: eval_defs)
  have "is_meta (weight l)"
    using PiSSALinear_init_fields(15) [OF l] by (simp add: example_meta_env_def)
  then show ?thesis
    using m initialize_pissa_meta [of example_source example_env PyNone]
      initialize_pissa_meta [of example_source example_env "PyInt 2"]
      initialize_pissa_meta [of l example_env PyNone]
    by (simp add: l)
qed

subsection \<open>C8: what the constructor validates\<close>




subsection \<open>C9: QATPiSSALinear without fake quantization\<close>

text \<open>
  Claim C9. A \<^verbatim>\<open>QATPiSSALinear\<close> whose two fake quantizers are the identity (as
  the constructor leaves them for \<^verbatim>\<open>activation_qat_config=None\<close> and
  \<^verbatim>\<open>weight_qat_config=None\<close>) computes, for every input, the same output as a
  \<^verbatim>\<open>PiSSALinear\<close> without bias and without quantized base that has the same weight,
  \<^verbatim>\<open>pissa_u\<close>, \<^verbatim>\<open>pissa_s\<close>, \<^verbatim>\<open>pissa_v\<close>, dropout, rank, alpha and
  \<^verbatim>\<open>disabled\<close> flag, under the same dropout mask.
\<close>

theorem qat_forward_identity_quantizers:
  assumes "activation_fake_quantizer q = QIdentity" "weight_fake_quantizer q = QIdentity"
    and "bias l = None" "\<not> quantize_base l"
    and "weight l = weight q" "pissa_u_weight l = pissa_u_weight q" "pissa_s l = pissa_s q"
      "pissa_v_weight l = pissa_v_weight q" "dropout l = dropout q" "rank l = rank q"
      "alpha l = alpha q" "disabled l = disabled q"
  shows "QATPiSSALinear_forward env q x = PiSSALinear_forward env l x"
proof -
  have ad: "adapter_out env q x out = adapter_out env l x out" for out
    unfolding adapter_out_def using assms by (simp cong: if_cong)
  show ?thesis
    using assms
    by (simp add: QATPiSSALinear_forward_def PiSSALinear_forward_def qat_base_out_def
        base_out_def call_quantizer_act_def call_quantizer_weight_def ad cong: if_cong)
qed

text \<open>
  The theorem at the two layers that the constructors return for the same arguments,
  once \<^verbatim>\<open>pissa_s\<close> holds \<open>[1, 1/2]\<close> in both.
\<close>

theorem qat_forward_identity_quantizers_witness:
  "QATPiSSALinear_init example_env 2 2 2 4 (1 / 2) None None
     = Inr (example_qat_layer\<lparr>pissa_s := \<lparr>is_meta = False, storage = of_reals [0, 0]\<rparr>\<rparr>)
   \<and> PiSSALinear_init example_env 2 2 2 4 (1 / 2) False False []
     = Inr (example_layer\<lparr>pissa_s := \<lparr>is_meta = False, storage = of_reals [0, 0]\<rparr>\<rparr>)
   \<and> QATPiSSALinear_forward example_env example_qat_layer (of_reals [1, 2])
     = PiSSALinear_forward example_env example_layer (of_reals [1, 2])
   \<and> PiSSALinear_forward example_env example_layer (of_reals [1, 2])
     = Inr (of_reals [38, 38])"
proof -
  have "QATPiSSALinear_forward example_env example_qat_layer (of_reals [1, 2])
          = PiSSALinear_forward example_env example_layer (of_reals [1, 2])"
    by (rule qat_forward_identity_quantizers)
      (simp_all add: example_qat_layer_def example_layer_def PiSSALinear.defs
        QATPiSSALinear.defs)
  then show ?thesis
    by (simp add: eval_defs)
qed

subsection \<open>C10: from_lora_linear does not carry the singular values over\<close>



end
